theory Spec2Isabelle
  imports Complex_Main
begin

section \<open>Bidirectional clipboard synchronisation client\<close>

text \<open>
  A shallow embedding of \<^verbatim>\<open>macos_client_bidirectional.py\<close>: the reconnect loop of
  \<^verbatim>\<open>clipboard_sync\<close> and its three nested coroutines \<^verbatim>\<open>receive\<close>, \<^verbatim>\<open>send\<close> and
  \<^verbatim>\<open>heartbeat\<close>.

  The program talks to its environment (the web socket, the clipboard, the event loop)
  at every step. The model makes the environment's answers explicit inputs and records
  the calls the program makes as a list of effects. Calls to \<^verbatim>\<open>log\<close> only print and are
  left out of the effect lists.
\<close>

subsection \<open>Configuration\<close>

text \<open>
  The module constants the modelled code reads. The delay and the interval are numbers
  of seconds. Python computes the delay in binary floating point; every value that occurs
  for the default base delay is a dyadic rational below \<open>2 ^ 53\<close>, which a double
  represents exactly, so rational arithmetic gives the same numbers.
\<close>

record config =
  CHECK_INTERVAL :: rat
  RECONNECT_DELAY :: rat
  MAX_RECONNECT_ATTEMPTS :: int

definition default_config :: config where
  "default_config =
     \<lparr>CHECK_INTERVAL = 1 / 2, RECONNECT_DELAY = 5, MAX_RECONNECT_ATTEMPTS = 0\<rparr>"

subsection \<open>Connection state, exceptions, effects\<close>

datatype ConnectionState = DISCONNECTED | CONNECTING | CONNECTED

text \<open>
  The two kinds of exception the handlers tell apart: \<open>Exception\<close> stands for any
  instance of Python's \<^verbatim>\<open>Exception\<close>, \<open>CancelledError\<close> for \<^verbatim>\<open>asyncio.CancelledError\<close>,
  which derives from \<^verbatim>\<open>BaseException\<close> (Python 3.8 and later) and so passes through
  \<^verbatim>\<open>except Exception\<close>.
\<close>

datatype exn = Exception | CancelledError

text \<open>What an \<^verbatim>\<open>await\<close> does: it completes, or it raises.\<close>

datatype await_result = Done | Raises exn

text \<open>
  The three user notifications of \<^verbatim>\<open>send_notification\<close>: connected (line 126),
  reconnect limit exceeded (line 199), disconnected and reconnecting (line 207).
\<close>

datatype notification = NotifyConnected | NotifyStopped | NotifyReconnecting

text \<open>The envelope \<^verbatim>\<open>{"type": ..., "text": ..., "source": ...}\<close> the sender serialises.\<close>

datatype envelope = Envelope (env_type: string) (env_text: string) (env_source: string)

datatype effect =
    StateChange ConnectionState
  | Connect
  | Notify notification
  | Sleep rat
  | ClipWrite string
  | WsSend envelope
  | WsPing
  | WsClose

text \<open>
  How a coroutine stands after the environment's answers have been used up: still
  running (\<open>Pending\<close>), returned, or ended by an exception.
\<close>

datatype outcome = Pending | Returned | Raised exn

subsection \<open>\<^verbatim>\<open>set_state\<close>\<close>

text \<open>The state changes, and is published, only when the new state differs.\<close>

definition set_state :: "ConnectionState \<Rightarrow> ConnectionState \<Rightarrow> ConnectionState \<times> effect list" where
  "set_state current_state new_state =
     (if current_state \<noteq> new_state then (new_state, [StateChange new_state])
      else (current_state, []))"

subsection \<open>The reconnect delay\<close>

text \<open>Python's \<^verbatim>\<open>b ** k\<close> for an integer exponent \<open>k\<close> and a nonzero base.\<close>

definition py_pow :: "rat \<Rightarrow> int \<Rightarrow> rat" where
  "py_pow b k = (if 0 \<le> k then b ^ nat k else 1 / b ^ nat (- k))"

text \<open>
  Line 202:
  \<^verbatim>\<open>delay = min(RECONNECT_DELAY * (1.5 ** min(reconnect_count - 1, 5)), 60)\<close>
\<close>

definition delay :: "rat \<Rightarrow> int \<Rightarrow> rat" where
  "delay base reconnect_count = min (base * py_pow (3 / 2) (min (reconnect_count - 1) 5)) 60"

subsection \<open>\<^verbatim>\<open>receive\<close>: one inbound message\<close>

text \<open>
  An inbound frame after \<^verbatim>\<open>json.loads\<close>: either it is not a JSON object (the decoder
  raises, or \<^verbatim>\<open>data.get\<close> does; both are logged and skipped), or it is an object, of
  which the receiver reads the fields \<^verbatim>\<open>type\<close> and \<^verbatim>\<open>text\<close>. \<open>None\<close> is an absent
  field. The fields are taken to be strings when present.
\<close>

datatype inbound = Malformed | Object "string option" "string option"

text \<open>
  The body of the \<^verbatim>\<open>async for\<close> loop (lines 131 to 142). The third argument is what
  \<^verbatim>\<open>set_clipboard\<close> returns if it is called. The result is the new \<^verbatim>\<open>last_clipboard\<close>
  and the effects.
\<close>

definition receive_message :: "string \<Rightarrow> inbound \<Rightarrow> bool \<Rightarrow> string \<times> effect list" where
  "receive_message last_clipboard message write_ok =
     (case message of
        Malformed \<Rightarrow> (last_clipboard, [])
      | Object ty tx \<Rightarrow>
          if ty = Some ''clipboard'' then
            (let text = (case tx of None \<Rightarrow> [] | Some t \<Rightarrow> t) in
             if text \<noteq> [] \<and> text \<noteq> last_clipboard then
               (if write_ok then (text, [ClipWrite text])
                else (last_clipboard, [ClipWrite text]))
             else (last_clipboard, []))
          else (last_clipboard, []))"

subsection \<open>\<^verbatim>\<open>send\<close>: the polling loop\<close>

text \<open>
  The environment of one poll cycle: what \<^verbatim>\<open>get_clipboard()\<close> returns (\<open>None\<close> when
  both ways of reading fail), and what each \<^verbatim>\<open>await\<close> of the cycle does if reached.
\<close>

record poll_env =
  get_clipboard :: "string option"
  ws_send :: await_result
  sleep_recover :: await_result
  sleep_interval :: await_result

text \<open>
  The \<^verbatim>\<open>try\<close> block of lines 148 to 165. The state is \<^verbatim>\<open>last_clipboard\<close> and
  \<^verbatim>\<open>consecutive_errors\<close>; the first component of the result is the exception the block
  raises, if any.
\<close>

definition send_try :: "string \<times> int \<Rightarrow> poll_env \<Rightarrow> exn option \<times> (string \<times> int) \<times> effect list" where
  "send_try st p =
     (let (last_clipboard, consecutive_errors) = st in
      case get_clipboard p of
        Some current \<Rightarrow>
          if current \<noteq> [] \<and> current \<noteq> last_clipboard then
            (case ws_send p of
               Done \<Rightarrow> (None, (current, 0), [WsSend (Envelope ''clipboard'' current ''macos'')])
             | Raises e \<Rightarrow> (Some e, (current, 0), [WsSend (Envelope ''clipboard'' current ''macos'')]))
          else (None, (last_clipboard, 0), [])
      | None \<Rightarrow>
          if consecutive_errors + 1 \<ge> 5 then
            (case sleep_recover p of
               Done \<Rightarrow> (None, (last_clipboard, 0), [Sleep 2])
             | Raises e \<Rightarrow> (Some e, (last_clipboard, 0), [Sleep 2]))
          else (None, (last_clipboard, consecutive_errors + 1), []))"

text \<open>
  One turn of the \<^verbatim>\<open>while True\<close> loop (lines 147 to 168): the \<^verbatim>\<open>try\<close> block, the
  handler \<^verbatim>\<open>except Exception\<close>, which logs and goes on, and the sleep of
  \<^verbatim>\<open>CHECK_INTERVAL\<close> after it. A \<open>CancelledError\<close> is not caught and ends the task, as
  does anything the last sleep raises.
\<close>

definition send_iteration :: "config \<Rightarrow> string \<times> int \<Rightarrow> poll_env \<Rightarrow> exn option \<times> (string \<times> int) \<times> effect list" where
  "send_iteration cfg st p =
     (let (r, st', eff) = send_try st p in
      case r of
        Some CancelledError \<Rightarrow> (Some CancelledError, st', eff)
      | _ \<Rightarrow>
          (case sleep_interval p of
             Done \<Rightarrow> (None, st', eff @ [Sleep (CHECK_INTERVAL cfg)])
           | Raises e \<Rightarrow> (Some e, st', eff @ [Sleep (CHECK_INTERVAL cfg)])))"

text \<open>The loop over the poll cycles the environment provides.\<close>

fun send_loop :: "config \<Rightarrow> string \<times> int \<Rightarrow> poll_env list \<Rightarrow> outcome \<times> (string \<times> int) \<times> effect list" where
  "send_loop cfg st [] = (Pending, st, [])"
| "send_loop cfg st (p # ps) =
     (case send_iteration cfg st p of
        (Some e, st', eff) \<Rightarrow> (Raised e, st', eff)
      | (None, st', eff) \<Rightarrow>
          (let (out, st'', eff') = send_loop cfg st' ps in (out, st'', eff @ eff')))"

text \<open>\<^verbatim>\<open>send()\<close> itself starts with \<^verbatim>\<open>consecutive_errors = 0\<close>.\<close>

definition send :: "config \<Rightarrow> string \<Rightarrow> poll_env list \<Rightarrow> outcome \<times> (string \<times> int) \<times> effect list" where
  "send cfg last_clipboard ps = send_loop cfg (last_clipboard, 0) ps"

subsection \<open>\<^verbatim>\<open>heartbeat\<close>\<close>

text \<open>
  The environment of one turn of the heartbeat loop: the pong arrives within the 10
  seconds (with what the following \<^verbatim>\<open>sleep(30)\<close> does), the wait times out (with what
  \<^verbatim>\<open>ws.close()\<close> does), or the ping raises.
\<close>

datatype ping_env = Pong await_result | PongTimeout await_result | PingRaises exn

fun heartbeat :: "ConnectionState \<Rightarrow> ping_env list \<Rightarrow> outcome \<times> ConnectionState \<times> effect list" where
  "heartbeat cs [] = (Pending, cs, [])"
| "heartbeat cs (Pong Done # hs) =
     (let (out, cs', eff) = heartbeat cs hs in (out, cs', [WsPing, Sleep 30] @ eff))"
| "heartbeat cs (Pong (Raises e) # hs) = (Raised e, cs, [WsPing, Sleep 30])"
| "heartbeat cs (PongTimeout c # hs) =
     (let (cs', eff) = set_state cs DISCONNECTED in
      case c of
        Done \<Rightarrow> (Returned, cs', [WsPing] @ eff @ [WsClose])
      | Raises e \<Rightarrow> (Raised e, cs', [WsPing] @ eff @ [WsClose]))"
| "heartbeat cs (PingRaises Exception # hs) =
     (let (cs', eff) = set_state cs DISCONNECTED in (Returned, cs', [WsPing] @ eff))"
| "heartbeat cs (PingRaises CancelledError # hs) = (Raised CancelledError, cs, [WsPing])"

subsection \<open>\<^verbatim>\<open>asyncio.gather\<close> of the three tasks\<close>

text \<open>
  Line 188 awaits \<^verbatim>\<open>asyncio.gather(receive(), send(), heartbeat())\<close>. As the library
  documents it, the await raises as soon as one of the tasks raises, returns when all of
  them have returned, and otherwise does not complete. When more than one task raises,
  the model takes the exception of the first in the order of the arguments.
\<close>

definition gather :: "outcome \<Rightarrow> outcome \<Rightarrow> outcome \<Rightarrow> outcome" where
  "gather r s h =
     (case r of
        Raised e \<Rightarrow> Raised e
      | _ \<Rightarrow>
          (case s of
             Raised e \<Rightarrow> Raised e
           | _ \<Rightarrow>
               (case h of
                  Raised e \<Rightarrow> Raised e
                | _ \<Rightarrow>
                    (if r = Returned \<and> s = Returned \<and> h = Returned then Returned
                     else Pending))))"

subsection \<open>\<^verbatim>\<open>clipboard_sync\<close>: the reconnect loop\<close>

record loop =
  current_state :: ConnectionState
  reconnect_count :: int

definition initial_loop :: loop where
  "initial_loop = \<lparr>current_state = DISCONNECTED, reconnect_count = 0\<rparr>"

text \<open>
  How the loop stands: it goes on with the next turn (\<open>Running\<close>), it left by the
  \<^verbatim>\<open>break\<close> of line 200 (\<open>Stopped\<close>) or of line 192 (\<open>Cancelled\<close>), it waits for a
  \<^verbatim>\<open>gather\<close> that does not complete (\<open>Blocked\<close>), or an exception left the coroutine.
\<close>

datatype status = Running | Stopped | Cancelled | Blocked | Propagated exn

text \<open>
  What the environment does in one turn of the loop: \<^verbatim>\<open>websockets.connect\<close> raises,
  or the connection is made and the session runs, given by the outcomes of the tasks
  \<^verbatim>\<open>receive\<close> and \<^verbatim>\<open>send\<close> and the environment of \<^verbatim>\<open>heartbeat\<close>.
\<close>

datatype attempt = ConnectRaises exn | Connected outcome outcome "ping_env list"

text \<open>Lines 121 to 126, run when the connection has been made.\<close>

definition on_connected :: "loop \<Rightarrow> loop \<times> effect list" where
  "on_connected l =
     (let (cs, eff) = set_state (current_state l) CONNECTED in
      (l\<lparr>current_state := cs, reconnect_count := 0\<rparr>, eff @ [Notify NotifyConnected]))"

text \<open>
  The handler \<^verbatim>\<open>except Exception\<close> of lines 193 to 209. The last argument is what the
  \<^verbatim>\<open>await asyncio.sleep(delay)\<close> does if it is reached.
\<close>

definition on_exception :: "config \<Rightarrow> loop \<Rightarrow> await_result \<Rightarrow> status \<times> loop \<times> effect list" where
  "on_exception cfg l backoff =
     (let (cs, eff) = set_state (current_state l) DISCONNECTED;
          l' = l\<lparr>current_state := cs, reconnect_count := reconnect_count l + 1\<rparr>
      in
        if MAX_RECONNECT_ATTEMPTS cfg > 0 \<and> reconnect_count l' > MAX_RECONNECT_ATTEMPTS cfg
        then (Stopped, l', eff @ [Notify NotifyStopped])
        else
          (let eff' = eff
                 @ (if reconnect_count l' = 1 then [Notify NotifyReconnecting] else [])
                 @ [Sleep (delay (RECONNECT_DELAY cfg) (reconnect_count l'))]
           in case backoff of
                Done \<Rightarrow> (Running, l', eff')
              | Raises e \<Rightarrow> (Propagated e, l', eff')))"

text \<open>
  One turn of the \<^verbatim>\<open>while True\<close> loop of lines 108 to 209. The heartbeat task
  writes the shared connection state; the tasks \<^verbatim>\<open>receive\<close> and \<^verbatim>\<open>send\<close> do not
  touch the state of the loop, so only their outcomes enter. The closing of the socket
  when the \<^verbatim>\<open>async with\<close> block is left is not recorded as an effect.
\<close>

definition sync_iteration :: "config \<Rightarrow> loop \<Rightarrow> attempt \<times> await_result \<Rightarrow> status \<times> loop \<times> effect list" where
  "sync_iteration cfg l env =
     (let (att, backoff) = env;
          (cs1, eff1) = set_state (current_state l) CONNECTING;
          l1 = l\<lparr>current_state := cs1\<rparr>
      in case att of
           ConnectRaises CancelledError \<Rightarrow> (Cancelled, l1, eff1 @ [Connect])
         | ConnectRaises Exception \<Rightarrow>
             (let (st, l2, eff2) = on_exception cfg l1 backoff
              in (st, l2, eff1 @ [Connect] @ eff2))
         | Connected r s hb \<Rightarrow>
             (let (l2, eff2) = on_connected l1;
                  (h, cs3, eff3) = heartbeat (current_state l2) hb;
                  l3 = l2\<lparr>current_state := cs3\<rparr>;
                  eff = eff1 @ [Connect] @ eff2 @ eff3
              in case gather r s h of
                   Pending \<Rightarrow> (Blocked, l3, eff)
                 | Returned \<Rightarrow> (Running, l3, eff)
                 | Raised CancelledError \<Rightarrow> (Cancelled, l3, eff)
                 | Raised Exception \<Rightarrow>
                     (let (st, l4, eff4) = on_exception cfg l3 backoff
                      in (st, l4, eff @ eff4))))"

text \<open>The loop over the turns the environment provides.\<close>

fun clipboard_sync :: "config \<Rightarrow> loop \<Rightarrow> (attempt \<times> await_result) list \<Rightarrow> status \<times> loop \<times> effect list" where
  "clipboard_sync cfg l [] = (Running, l, [])"
| "clipboard_sync cfg l (env # envs) =
     (let (st, l', eff) = sync_iteration cfg l env in
      if st = Running then
        (let (st', l'', eff') = clipboard_sync cfg l' envs in (st', l'', eff @ eff'))
      else (st, l', eff))"

subsection \<open>Reading effect lists\<close>

text \<open>The envelopes sent and the texts written to the clipboard, in order.\<close>

fun sends :: "effect list \<Rightarrow> envelope list" where
  "sends [] = []"
| "sends (WsSend e # effs) = e # sends effs"
| "sends (_ # effs) = sends effs"

fun writes :: "effect list \<Rightarrow> string list" where
  "writes [] = []"
| "writes (ClipWrite t # effs) = t # writes effs"
| "writes (_ # effs) = writes effs"

text \<open>A turn of the reconnect loop in which the connection fails and the backoff wait completes.\<close>

abbreviation connect_failure :: "attempt \<times> await_result" where
  "connect_failure \<equiv> (ConnectRaises Exception, Done)"

section \<open>Properties\<close>

subsection \<open>Auxiliary facts\<close>

lemma sends_append: "sends (xs @ ys) = sends xs @ sends ys"
  by (induction xs rule: sends.induct) simp_all

lemma set_state_count [simp]:
  "count_list (snd (set_state cs new)) (Notify n) = 0"
  "count_list (snd (set_state cs new)) Connect = 0"
  by (simp_all add: set_state_def)

lemma heartbeat_count [simp]:
  "count_list (snd (snd (heartbeat cs hs))) (Notify n) = 0"
  "count_list (snd (snd (heartbeat cs hs))) Connect = 0"
  by (induction cs hs rule: heartbeat.induct)
     (simp_all add: split_beta set_state_def split: await_result.splits)

subsection \<open>Receiver and sender against the snapshot\<close>

text \<open>
  C1 (echo prevention). When the receiver has handled a clipboard message with text \<open>T\<close>
  and has written \<open>T\<close> to the clipboard, the snapshot \<^verbatim>\<open>last_clipboard\<close> is \<open>T\<close>, and a
  following poll of the sender that reads \<open>T\<close> sends nothing and leaves the snapshot at
  \<open>T\<close>. Both paths compare with the snapshot: a further message with the same text
  writes nothing either.
\<close>

theorem echo_prevention:
  "receive_message snap (Object (Some ''clipboard'') (Some T)) True = (snap', eff) \<Longrightarrow>
   writes eff = [T] \<Longrightarrow> get_clipboard p = Some T \<Longrightarrow>
     snap' = T
     \<and> sends (snd (snd (send_iteration cfg (snap', errs) p))) = []
     \<and> fst (fst (snd (send_iteration cfg (snap', errs) p))) = T
     \<and> writes (snd (receive_message snap' (Object (Some ''clipboard'') (Some T)) ok)) = []"
  by (auto simp add: receive_message_def send_iteration_def send_try_def sends_append
      split: await_result.splits exn.splits if_splits)

theorem echo_prevention_witness:
  "receive_message ''a'' (Object (Some ''clipboard'') (Some ''b'')) True = (''b'', [ClipWrite ''b''])
   \<and> writes [ClipWrite ''b''] = [''b'']
   \<and> get_clipboard \<lparr>get_clipboard = Some ''b'', ws_send = Done, sleep_recover = Done,
        sleep_interval = Done\<rparr> = Some ''b''
   \<and> sends (snd (snd (send_iteration default_config (''b'', 0)
        \<lparr>get_clipboard = Some ''b'', ws_send = Done, sleep_recover = Done,
         sleep_interval = Done\<rparr>))) = []"
proof -
  have r: "receive_message ''a'' (Object (Some ''clipboard'') (Some ''b'')) True
      = (''b'', [ClipWrite ''b''])"
    by (simp add: receive_message_def Let_def)
  have w: "writes [ClipWrite ''b''] = [''b'']"
    by simp
  have g: "get_clipboard \<lparr>get_clipboard = Some ''b'', ws_send = Done, sleep_recover = Done,
        sleep_interval = Done\<rparr> = Some ''b''"
    by simp
  from echo_prevention [OF r w g, of default_config 0 True] r w g show ?thesis
    by simp
qed

text \<open>
  C10 (empty text is never synchronised). A clipboard message whose text is empty or
  absent causes no clipboard write and leaves the snapshot as it is, whatever the
  snapshot; a poll that reads the empty string sends nothing and leaves the snapshot as
  it is.
\<close>

theorem empty_text_not_synced:
  "receive_message snap (Object (Some ''clipboard'') (Some [])) ok = (snap, [])
   \<and> receive_message snap (Object (Some ''clipboard'') None) ok = (snap, [])
   \<and> sends (snd (snd (send_iteration cfg (snap, errs) (p\<lparr>get_clipboard := Some []\<rparr>)))) = []
   \<and> fst (fst (snd (send_iteration cfg (snap, errs) (p\<lparr>get_clipboard := Some []\<rparr>)))) = snap"
  by (simp add: receive_message_def send_iteration_def send_try_def sends_append
      split: await_result.splits)

text \<open>
  C3 (receiver), as the code has it. For a clipboard message with a text \<open>T\<close> that is not
  empty and differs from the snapshot, \<^verbatim>\<open>set_clipboard\<close> is called exactly once, with
  \<open>T\<close>, and the snapshot becomes \<open>T\<close> if the call succeeds and stays as it is
  otherwise. When \<open>T\<close> equals the snapshot, or is empty, nothing is written.
\<close>

theorem receiver_write:
  "(T \<noteq> [] \<and> T \<noteq> snap \<longrightarrow>
      receive_message snap (Object (Some ''clipboard'') (Some T)) ok
        = (if ok then T else snap, [ClipWrite T]))
   \<and> (T = snap \<or> T = [] \<longrightarrow>
      receive_message snap (Object (Some ''clipboard'') (Some T)) ok = (snap, []))"
  by (simp add: receive_message_def)

theorem receiver_write_witness:
  "''b'' \<noteq> [] \<and> ''b'' \<noteq> ''a''
   \<and> receive_message ''a'' (Object (Some ''clipboard'') (Some ''b'')) True
       = (''b'', [ClipWrite ''b''])
   \<and> receive_message ''a'' (Object (Some ''clipboard'') (Some ''a'')) True = (''a'', [])"
  using receiver_write [of "''b''" "''a''" True] receiver_write [of "''a''" "''a''" True]
  by simp

text \<open>
  The claim as stated fails for the empty text, which differs from the snapshot \<open>''a''\<close>
  and is not written, and for a write that fails, after which the snapshot is not the
  text.
\<close>

theorem receiver_write_counterexample:
  "[] \<noteq> ''a''
   \<and> writes (snd (receive_message ''a'' (Object (Some ''clipboard'') (Some [])) True)) = []
   \<and> fst (receive_message ''a'' (Object (Some ''clipboard'') (Some [])) True) = ''a''
   \<and> fst (receive_message ''a'' (Object (Some ''clipboard'') (Some ''b'')) False) = ''a''"
  by (simp add: receive_message_def)

text \<open>
  C4 (sender), as the code has it. In a poll cycle that reads a text \<open>T\<close> that is not
  empty and differs from the snapshot, the sender sends exactly one envelope, of type
  \<open>clipboard\<close>, with text \<open>T\<close> and source \<open>macos\<close>, and the snapshot is \<open>T\<close> at the
  end of the cycle, whether or not the send succeeds.
\<close>

theorem sender_send:
  "T \<noteq> [] \<Longrightarrow> T \<noteq> snap \<Longrightarrow> get_clipboard p = Some T \<Longrightarrow>
     sends (snd (snd (send_iteration cfg (snap, errs) p))) = [Envelope ''clipboard'' T ''macos'']
     \<and> fst (fst (snd (send_iteration cfg (snap, errs) p))) = T"
  by (simp add: send_iteration_def send_try_def sends_append
      split: await_result.splits exn.splits)

theorem sender_send_witness:
  "''b'' \<noteq> [] \<and> ''b'' \<noteq> ''a''
   \<and> get_clipboard \<lparr>get_clipboard = Some ''b'', ws_send = Done, sleep_recover = Done,
        sleep_interval = Done\<rparr> = Some ''b''
   \<and> sends (snd (snd (send_iteration default_config (''a'', 0)
        \<lparr>get_clipboard = Some ''b'', ws_send = Done, sleep_recover = Done,
         sleep_interval = Done\<rparr>))) = [Envelope ''clipboard'' ''b'' ''macos'']
   \<and> fst (fst (snd (send_iteration default_config (''a'', 0)
        \<lparr>get_clipboard = Some ''b'', ws_send = Done, sleep_recover = Done,
         sleep_interval = Done\<rparr>))) = ''b''"
  using sender_send [of "''b''" "''a''"
      "\<lparr>get_clipboard = Some ''b'', ws_send = Done, sleep_recover = Done, sleep_interval = Done\<rparr>"
      default_config 0]
  by simp

text \<open>
  The claim as stated fails for the empty text: read while the snapshot is \<open>''a''\<close>, it
  differs from the snapshot, yet nothing is sent and the snapshot stays \<open>''a''\<close>.
\<close>

theorem sender_send_counterexample:
  "[] \<noteq> ''a''
   \<and> sends (snd (snd (send_iteration default_config (''a'', 0)
        \<lparr>get_clipboard = Some [], ws_send = Done, sleep_recover = Done,
         sleep_interval = Done\<rparr>))) = []
   \<and> fst (fst (snd (send_iteration default_config (''a'', 0)
        \<lparr>get_clipboard = Some [], ws_send = Done, sleep_recover = Done,
         sleep_interval = Done\<rparr>))) = ''a''"
  by (simp add: send_iteration_def send_try_def)

subsection \<open>The sender task\<close>

lemma send_iteration_quiet:
  "ws_send p \<noteq> Raises CancelledError \<Longrightarrow> sleep_recover p \<noteq> Raises CancelledError \<Longrightarrow>
   sleep_interval p = Done \<Longrightarrow>
   \<exists>st' eff. send_iteration cfg st p = (None, st', eff @ [Sleep (CHECK_INTERVAL cfg)])"
  by (cases st) (auto simp add: send_iteration_def send_try_def
      split: option.splits await_result.splits exn.splits)

lemma send_loop_quiet:
  "\<forall>p \<in> set ps. ws_send p \<noteq> Raises CancelledError \<and> sleep_recover p \<noteq> Raises CancelledError
      \<and> sleep_interval p = Done \<Longrightarrow>
   fst (send_loop cfg st ps) = Pending
   \<and> length ps \<le> count_list (snd (snd (send_loop cfg st ps))) (Sleep (CHECK_INTERVAL cfg))"
proof (induction ps arbitrary: st)
  case Nil
  then show ?case by simp
next
  case (Cons p ps)
  from Cons.prems obtain st' eff where
    it: "send_iteration cfg st p = (None, st', eff @ [Sleep (CHECK_INTERVAL cfg)])"
    using send_iteration_quiet [of p cfg st] by auto
  from Cons.prems have "\<forall>p \<in> set ps. ws_send p \<noteq> Raises CancelledError
      \<and> sleep_recover p \<noteq> Raises CancelledError \<and> sleep_interval p = Done"
    by simp
  from Cons.IH [OF this, of st'] show ?case
    using it by (simp add: split_beta)
qed

lemma send_iteration_cancel:
  "sleep_interval p = Raises CancelledError \<Longrightarrow>
   fst (send_iteration cfg st p) = Some CancelledError"
  by (cases st) (auto simp add: send_iteration_def send_try_def
      split: option.splits await_result.splits exn.splits)

lemma send_loop_append_pending:
  "fst (send_loop cfg st ps) = Pending \<Longrightarrow>
   fst (send_loop cfg st (ps @ qs)) = fst (send_loop cfg (fst (snd (send_loop cfg st ps))) qs)"
proof (induction ps arbitrary: st)
  case Nil
  then show ?case by simp
next
  case (Cons p ps)
  then show ?case
    by (cases "send_iteration cfg st p") (auto simp add: split_beta split: option.splits)
qed

text \<open>
  C5 (the sender task), as the code has it. As long as no \<^verbatim>\<open>await\<close> of the task is
  cancelled, the task is still running after any number of poll cycles, whatever the
  clipboard reads and also when sends fail with an exception: the handler of line 166
  catches the failure and the loop goes on. Every cycle ends with the sleep of
  \<^verbatim>\<open>CHECK_INTERVAL\<close>. A cancellation ends the task.
\<close>

theorem sender_runs_until_cancelled:
  "\<forall>p \<in> set ps. ws_send p \<noteq> Raises CancelledError \<and> sleep_recover p \<noteq> Raises CancelledError
      \<and> sleep_interval p = Done \<Longrightarrow>
   fst (send cfg snap ps) = Pending
   \<and> length ps \<le> count_list (snd (snd (send cfg snap ps))) (Sleep (CHECK_INTERVAL cfg))
   \<and> fst (send cfg snap (ps @ p\<lparr>sleep_interval := Raises CancelledError\<rparr> # qs))
       = Raised CancelledError"
proof -
  assume q: "\<forall>p \<in> set ps. ws_send p \<noteq> Raises CancelledError
      \<and> sleep_recover p \<noteq> Raises CancelledError \<and> sleep_interval p = Done"
  let ?c = "p\<lparr>sleep_interval := Raises CancelledError\<rparr>"
  have a: "fst (send_loop cfg (snap, 0) ps) = Pending"
    and b: "length ps
      \<le> count_list (snd (snd (send_loop cfg (snap, 0) ps))) (Sleep (CHECK_INTERVAL cfg))"
    using send_loop_quiet [OF q, of cfg "(snap, 0)"] by simp_all
  have "fst (send_loop cfg st (?c # qs)) = Raised CancelledError" for st
  proof -
    have "fst (send_iteration cfg st ?c) = Some CancelledError"
      by (rule send_iteration_cancel) simp
    then obtain st' eff where "send_iteration cfg st ?c = (Some CancelledError, st', eff)"
      by (cases "send_iteration cfg st ?c") auto
    then show ?thesis by simp
  qed
  then have c: "fst (send_loop cfg (snap, 0) (ps @ ?c # qs)) = Raised CancelledError"
    using send_loop_append_pending [OF a] by simp
  show ?thesis using a b c by (simp add: send_def)
qed

theorem sender_runs_until_cancelled_witness:
  "ws_send \<lparr>get_clipboard = Some ''b'', ws_send = Raises Exception, sleep_recover = Done,
        sleep_interval = Done\<rparr> \<noteq> Raises CancelledError
   \<and> sleep_recover \<lparr>get_clipboard = Some ''b'', ws_send = Raises Exception, sleep_recover = Done,
        sleep_interval = Done\<rparr> \<noteq> Raises CancelledError
   \<and> sleep_interval \<lparr>get_clipboard = Some ''b'', ws_send = Raises Exception, sleep_recover = Done,
        sleep_interval = Done\<rparr> = Done
   \<and> fst (send default_config ''a''
        [\<lparr>get_clipboard = Some ''b'', ws_send = Raises Exception, sleep_recover = Done,
          sleep_interval = Done\<rparr>]) = Pending"
  using sender_runs_until_cancelled
    [of "[\<lparr>get_clipboard = Some ''b'', ws_send = Raises Exception, sleep_recover = Done,
           sleep_interval = Done\<rparr>]" default_config "''a''"]
  by simp

text \<open>
  The claim as stated fails: after a poll whose send raises, the task has not ended, and
  the next poll sends the next text.
\<close>

theorem sender_send_failure_counterexample:
  "fst (send default_config ''a''
      [\<lparr>get_clipboard = Some ''b'', ws_send = Raises Exception, sleep_recover = Done,
        sleep_interval = Done\<rparr>,
       \<lparr>get_clipboard = Some ''c'', ws_send = Done, sleep_recover = Done,
        sleep_interval = Done\<rparr>]) = Pending
   \<and> sends (snd (snd (send default_config ''a''
      [\<lparr>get_clipboard = Some ''b'', ws_send = Raises Exception, sleep_recover = Done,
        sleep_interval = Done\<rparr>,
       \<lparr>get_clipboard = Some ''c'', ws_send = Done, sleep_recover = Done,
        sleep_interval = Done\<rparr>])))
     = [Envelope ''clipboard'' ''b'' ''macos'', Envelope ''clipboard'' ''c'' ''macos'']"
  by (simp add: send_def send_iteration_def send_try_def default_config_def)

subsection \<open>The reconnect delay\<close>





subsection \<open>The reconnect loop\<close>

lemma on_exception_count_after:
  "reconnect_count (fst (snd (on_exception cfg l b))) = reconnect_count l + 1"
  by (simp add: on_exception_def split_beta Let_def split: await_result.splits)

lemma on_exception_reconnecting:
  "count_list (snd (snd (on_exception cfg l b))) (Notify NotifyReconnecting)
     = (if reconnect_count l = 0 then 1 else 0)"
  by (simp add: on_exception_def split_beta Let_def split: await_result.splits)

lemma on_exception_unlimited:
  "MAX_RECONNECT_ATTEMPTS cfg = 0 \<Longrightarrow>
   fst (on_exception cfg l b) \<noteq> Stopped
   \<and> count_list (snd (snd (on_exception cfg l b))) (Notify NotifyStopped) = 0"
  by (simp add: on_exception_def split_beta Let_def split: await_result.splits)

lemma iteration_failure_count:
  "reconnect_count (fst (snd (sync_iteration cfg l (ConnectRaises Exception, b))))
     = reconnect_count l + 1"
  by (simp add: sync_iteration_def split_beta Let_def on_exception_count_after)

lemma iteration_failure_reconnecting:
  "count_list (snd (snd (sync_iteration cfg l (ConnectRaises Exception, b))))
     (Notify NotifyReconnecting) = (if reconnect_count l = 0 then 1 else 0)"
  by (simp add: sync_iteration_def split_beta Let_def on_exception_reconnecting)

lemma iteration_failure_connects:
  "count_list (snd (snd (sync_iteration cfg l (ConnectRaises Exception, b)))) Connect = 1"
  by (simp add: sync_iteration_def split_beta Let_def on_exception_def
      split: await_result.splits)

lemma iteration_failure_running:
  "MAX_RECONNECT_ATTEMPTS cfg = 0 \<Longrightarrow> fst (sync_iteration cfg l connect_failure) = Running"
  by (simp add: sync_iteration_def split_beta Let_def on_exception_def)

lemma iteration_unlimited:
  "MAX_RECONNECT_ATTEMPTS cfg = 0 \<Longrightarrow>
   fst (sync_iteration cfg l env) \<noteq> Stopped
   \<and> count_list (snd (snd (sync_iteration cfg l env))) (Notify NotifyStopped) = 0"
  using on_exception_unlimited [of cfg]
  by (cases env) (simp add: sync_iteration_def split_beta Let_def on_connected_def
      split: attempt.splits exn.splits outcome.splits)

lemma loop_unlimited:
  "MAX_RECONNECT_ATTEMPTS cfg = 0 \<Longrightarrow>
   fst (clipboard_sync cfg l envs) \<noteq> Stopped
   \<and> count_list (snd (snd (clipboard_sync cfg l envs))) (Notify NotifyStopped) = 0"
proof (induction envs arbitrary: l)
  case Nil
  then show ?case by simp
next
  case (Cons env envs)
  from Cons.IH [OF Cons.prems] iteration_unlimited [OF Cons.prems, of l env]
  show ?case by (simp add: split_beta)
qed

lemma streak_unlimited:
  "MAX_RECONNECT_ATTEMPTS cfg = 0 \<Longrightarrow>
   fst (clipboard_sync cfg l (replicate n connect_failure)) = Running
   \<and> count_list (snd (snd (clipboard_sync cfg l (replicate n connect_failure)))) Connect = n"
proof (induction n arbitrary: l)
  case 0
  then show ?case by simp
next
  case (Suc n)
  from Suc.IH [OF Suc.prems, of "fst (snd (sync_iteration cfg l connect_failure))"]
    iteration_failure_running [OF Suc.prems, of l]
  show ?case by (simp add: split_beta iteration_failure_connects)
qed

lemma streak_limit_three:
  "MAX_RECONNECT_ATTEMPTS cfg = 3 \<Longrightarrow> reconnect_count l = 0 \<Longrightarrow>
   fst (clipboard_sync cfg l [connect_failure, connect_failure, connect_failure]) = Running"
  by (simp add: sync_iteration_def split_beta Let_def on_exception_def set_state_def)

lemma streak_limit_four:
  "MAX_RECONNECT_ATTEMPTS cfg = 3 \<Longrightarrow> reconnect_count l = 0 \<Longrightarrow>
   fst (clipboard_sync cfg l
     ([connect_failure, connect_failure, connect_failure, connect_failure] @ rest)) = Stopped
   \<and> count_list (snd (snd (clipboard_sync cfg l
     ([connect_failure, connect_failure, connect_failure, connect_failure] @ rest)))) Connect = 4
   \<and> count_list (snd (snd (clipboard_sync cfg l
     ([connect_failure, connect_failure, connect_failure, connect_failure] @ rest))))
       (Notify NotifyStopped) = 1
   \<and> last (snd (snd (clipboard_sync cfg l
     ([connect_failure, connect_failure, connect_failure, connect_failure] @ rest))))
       = Notify NotifyStopped"
  by (simp add: sync_iteration_def split_beta Let_def on_exception_def set_state_def)

lemma streak_quiet:
  "1 \<le> reconnect_count l \<Longrightarrow>
   count_list (snd (snd (clipboard_sync cfg l (replicate n connect_failure))))
     (Notify NotifyReconnecting) = 0"
proof (induction n arbitrary: l)
  case 0
  then show ?case by simp
next
  case (Suc n)
  let ?it = "sync_iteration cfg l connect_failure"
  have "1 \<le> reconnect_count (fst (snd ?it))"
    using Suc.prems by (simp add: iteration_failure_count)
  from Suc.IH [OF this] show ?case
    using Suc.prems iteration_failure_reconnecting [of cfg l Done]
    by (simp add: split_beta)
qed

lemma streak_count:
  "fst (clipboard_sync cfg l (replicate n connect_failure)) = Running \<Longrightarrow>
   reconnect_count (fst (snd (clipboard_sync cfg l (replicate n connect_failure))))
     = reconnect_count l + int n"
proof (induction n arbitrary: l)
  case 0
  then show ?case by simp
next
  case (Suc n)
  let ?it = "sync_iteration cfg l connect_failure"
  from Suc.prems have r: "fst ?it = Running"
    by (simp add: split_beta split: if_splits)
  with Suc.prems
  have "fst (clipboard_sync cfg (fst (snd ?it)) (replicate n connect_failure)) = Running"
    by (simp add: split_beta)
  from Suc.IH [OF this] r show ?case
    by (simp add: split_beta iteration_failure_count)
qed

lemma on_connected_resets:
  "reconnect_count (fst (on_connected l)) = 0 \<and> current_state (fst (on_connected l)) = CONNECTED"
  by (simp add: on_connected_def set_state_def split_beta)

lemma session_count:
  "reconnect_count (fst (snd (sync_iteration cfg l (Connected r s hb, b))))
     = (if gather r s (fst (heartbeat CONNECTED hb)) = Raised Exception then 1 else 0)"
  by (simp add: sync_iteration_def split_beta Let_def on_connected_def set_state_def
      on_exception_count_after split: outcome.splits exn.splits)

lemma session_failure_reconnecting:
  "gather r s (fst (heartbeat CONNECTED hb)) = Raised Exception \<Longrightarrow>
   count_list (snd (snd (sync_iteration cfg l (Connected r s hb, b))))
     (Notify NotifyReconnecting) = 1"
  by (simp add: sync_iteration_def split_beta Let_def on_connected_def set_state_def
      on_exception_reconnecting)

text \<open>
  C7 (reconnect limit). With \<^verbatim>\<open>MAX_RECONNECT_ATTEMPTS = 3\<close> and a counter of 0, the
  loop is still running after three consecutive connection failures; the fourth ends it
  for good by the \<^verbatim>\<open>break\<close> of line 200, with one terminal notification as its last
  effect, and exactly four connection attempts are made whatever the environment would
  have answered afterwards. With the limit 0 the loop never stops on account of
  failures: no run ends by that \<^verbatim>\<open>break\<close> or emits the terminal notification, and
  after any number \<open>n\<close> of consecutive connection failures the loop is running and has
  made \<open>n\<close> attempts.
\<close>

theorem reconnect_limit:
  "(MAX_RECONNECT_ATTEMPTS cfg = 3 \<and> reconnect_count l = 0 \<longrightarrow>
      fst (clipboard_sync cfg l [connect_failure, connect_failure, connect_failure]) = Running
      \<and> fst (clipboard_sync cfg l
          ([connect_failure, connect_failure, connect_failure, connect_failure] @ rest))
          = Stopped
      \<and> count_list (snd (snd (clipboard_sync cfg l
          ([connect_failure, connect_failure, connect_failure, connect_failure] @ rest))))
          Connect = 4
      \<and> count_list (snd (snd (clipboard_sync cfg l
          ([connect_failure, connect_failure, connect_failure, connect_failure] @ rest))))
          (Notify NotifyStopped) = 1
      \<and> last (snd (snd (clipboard_sync cfg l
          ([connect_failure, connect_failure, connect_failure, connect_failure] @ rest))))
          = Notify NotifyStopped)
   \<and> (MAX_RECONNECT_ATTEMPTS cfg = 0 \<longrightarrow>
      fst (clipboard_sync cfg l envs) \<noteq> Stopped
      \<and> count_list (snd (snd (clipboard_sync cfg l envs))) (Notify NotifyStopped) = 0
      \<and> fst (clipboard_sync cfg l (replicate n connect_failure)) = Running
      \<and> count_list (snd (snd (clipboard_sync cfg l (replicate n connect_failure)))) Connect = n)"
proof (intro conjI impI)
  assume "MAX_RECONNECT_ATTEMPTS cfg = 3 \<and> reconnect_count l = 0"
  then have m: "MAX_RECONNECT_ATTEMPTS cfg = 3" and z: "reconnect_count l = 0"
    by simp_all
  show "fst (clipboard_sync cfg l [connect_failure, connect_failure, connect_failure]) = Running"
    by (rule streak_limit_three [OF m z])
  show "fst (clipboard_sync cfg l
      ([connect_failure, connect_failure, connect_failure, connect_failure] @ rest)) = Stopped"
    using streak_limit_four [OF m z, of rest] by blast
  show "count_list (snd (snd (clipboard_sync cfg l
      ([connect_failure, connect_failure, connect_failure, connect_failure] @ rest))))
      Connect = 4"
    using streak_limit_four [OF m z, of rest] by blast
  show "count_list (snd (snd (clipboard_sync cfg l
      ([connect_failure, connect_failure, connect_failure, connect_failure] @ rest))))
      (Notify NotifyStopped) = 1"
    using streak_limit_four [OF m z, of rest] by blast
  show "last (snd (snd (clipboard_sync cfg l
      ([connect_failure, connect_failure, connect_failure, connect_failure] @ rest))))
      = Notify NotifyStopped"
    using streak_limit_four [OF m z, of rest] by blast
next
  assume u: "MAX_RECONNECT_ATTEMPTS cfg = 0"
  show "fst (clipboard_sync cfg l envs) \<noteq> Stopped"
    using loop_unlimited [OF u, of l envs] by blast
  show "count_list (snd (snd (clipboard_sync cfg l envs))) (Notify NotifyStopped) = 0"
    using loop_unlimited [OF u, of l envs] by blast
  show "fst (clipboard_sync cfg l (replicate n connect_failure)) = Running"
    using streak_unlimited [OF u, of l n] by blast
  show "count_list (snd (snd (clipboard_sync cfg l (replicate n connect_failure)))) Connect = n"
    using streak_unlimited [OF u, of l n] by blast
qed

theorem reconnect_limit_witness:
  "MAX_RECONNECT_ATTEMPTS (default_config\<lparr>MAX_RECONNECT_ATTEMPTS := 3\<rparr>) = 3
   \<and> reconnect_count initial_loop = 0
   \<and> fst (clipboard_sync (default_config\<lparr>MAX_RECONNECT_ATTEMPTS := 3\<rparr>) initial_loop
        ([connect_failure, connect_failure, connect_failure, connect_failure]
         @ [connect_failure])) = Stopped
   \<and> MAX_RECONNECT_ATTEMPTS default_config = 0
   \<and> fst (clipboard_sync default_config initial_loop (replicate 5 connect_failure)) = Running"
  using reconnect_limit [where cfg = "default_config\<lparr>MAX_RECONNECT_ATTEMPTS := 3\<rparr>"
      and l = initial_loop and rest = "[connect_failure]"]
    reconnect_limit [where cfg = default_config and l = initial_loop and n = 5]
  by (simp add: default_config_def initial_loop_def)

text \<open>
  C8 (one notification per streak of failures). In a streak of consecutive connection
  failures that starts with a counter of 0 (its value at the start and after every
  connection made), the notification of line 207 is emitted exactly once, in the turn
  of the first failure; a turn that starts with a counter of 1 or more emits none. When
  the first failure of a streak is the failure of a session, after a connection made,
  that turn emits the notification once as well.
\<close>

theorem reconnecting_notified_once:
  "reconnect_count l = 0 \<Longrightarrow>
   count_list (snd (snd (clipboard_sync cfg l (replicate (Suc n) connect_failure))))
       (Notify NotifyReconnecting) = 1
   \<and> count_list (snd (snd (sync_iteration cfg l connect_failure)))
       (Notify NotifyReconnecting) = 1
   \<and> (\<forall>l'. 1 \<le> reconnect_count l' \<longrightarrow>
        count_list (snd (snd (sync_iteration cfg l' connect_failure)))
          (Notify NotifyReconnecting) = 0)
   \<and> (\<forall>l' r s hb b. gather r s (fst (heartbeat CONNECTED hb)) = Raised Exception \<longrightarrow>
        count_list (snd (snd (sync_iteration cfg l' (Connected r s hb, b))))
          (Notify NotifyReconnecting) = 1)"
proof -
  assume z: "reconnect_count l = 0"
  let ?it = "sync_iteration cfg l connect_failure"
  have first: "count_list (snd (snd ?it)) (Notify NotifyReconnecting) = 1"
    using z by (simp add: iteration_failure_reconnecting)
  have "1 \<le> reconnect_count (fst (snd ?it))"
    using z by (simp add: iteration_failure_count)
  then have rest: "count_list (snd (snd (clipboard_sync cfg (fst (snd ?it))
      (replicate n connect_failure)))) (Notify NotifyReconnecting) = 0"
    by (rule streak_quiet)
  have whole: "count_list (snd (snd (clipboard_sync cfg l (replicate (Suc n) connect_failure))))
       (Notify NotifyReconnecting) = 1"
    using first rest by (simp add: split_beta)
  have later: "\<forall>l'. 1 \<le> reconnect_count l' \<longrightarrow>
        count_list (snd (snd (sync_iteration cfg l' connect_failure)))
          (Notify NotifyReconnecting) = 0"
    by (simp add: iteration_failure_reconnecting)
  have session: "\<forall>l' r s hb b. gather r s (fst (heartbeat CONNECTED hb)) = Raised Exception \<longrightarrow>
        count_list (snd (snd (sync_iteration cfg l' (Connected r s hb, b))))
          (Notify NotifyReconnecting) = 1"
    by (simp add: session_failure_reconnecting)
  show ?thesis using whole first later session by blast
qed

theorem reconnecting_notified_once_witness:
  "reconnect_count initial_loop = 0
   \<and> count_list (snd (snd (clipboard_sync default_config initial_loop
        (replicate (Suc 2) connect_failure)))) (Notify NotifyReconnecting) = 1
   \<and> 1 \<le> reconnect_count (initial_loop\<lparr>reconnect_count := 2\<rparr>)
   \<and> count_list (snd (snd (sync_iteration default_config
        (initial_loop\<lparr>reconnect_count := 2\<rparr>) connect_failure)))
        (Notify NotifyReconnecting) = 0"
proof -
  have z: "reconnect_count initial_loop = 0"
    by (simp add: initial_loop_def)
  from reconnecting_notified_once [OF z, of default_config 2] z show ?thesis
    by simp
qed

text \<open>
  C9 (the reconnect counter). Entering \<open>CONNECTED\<close> sets the counter to 0, whatever it
  was; the failure handler adds one; so a turn in which the connection is made leaves the
  counter at 0, or at 1 when the session then fails, and a streak of \<open>n\<close> consecutive
  connection failures that leaves the loop running has added \<open>n\<close>.
\<close>

theorem reconnect_counter:
  "reconnect_count (fst (on_connected l)) = 0
   \<and> current_state (fst (on_connected l)) = CONNECTED
   \<and> reconnect_count (fst (snd (on_exception cfg l b))) = reconnect_count l + 1
   \<and> reconnect_count (fst (snd (sync_iteration cfg l (Connected r s hb, b))))
       = (if gather r s (fst (heartbeat CONNECTED hb)) = Raised Exception then 1 else 0)
   \<and> (fst (clipboard_sync cfg l (replicate n connect_failure)) = Running \<longrightarrow>
        reconnect_count (fst (snd (clipboard_sync cfg l (replicate n connect_failure))))
          = reconnect_count l + int n)"
  using on_connected_resets [of l] on_exception_count_after [of cfg l b]
    session_count [of cfg l r s hb b] streak_count [of cfg l n]
  by blast

theorem reconnect_counter_witness:
  "fst (clipboard_sync default_config initial_loop (replicate 3 connect_failure)) = Running
   \<and> reconnect_count (fst (snd (clipboard_sync default_config initial_loop
        (replicate 3 connect_failure)))) = 3
   \<and> reconnect_count (fst (snd (clipboard_sync default_config
        (fst (snd (clipboard_sync default_config initial_loop (replicate 3 connect_failure))))
        [(Connected Pending Pending [], Done)]))) = 0"
proof -
  have m: "MAX_RECONNECT_ATTEMPTS default_config = 0"
    by (simp add: default_config_def)
  have r: "fst (clipboard_sync default_config initial_loop (replicate 3 connect_failure)) = Running"
    using streak_unlimited [OF m, of initial_loop 3] by blast
  have c: "reconnect_count (fst (snd (clipboard_sync default_config initial_loop
      (replicate 3 connect_failure)))) = 3"
    using reconnect_counter [of initial_loop default_config Done Pending Pending "[]" 3] r
    by (simp add: initial_loop_def)
  have s: "reconnect_count (fst (snd (clipboard_sync default_config l
      [(Connected Pending Pending [], Done)]))) = 0" for l
    by (simp add: split_beta session_count gather_def)
  show ?thesis using r c s by blast
qed

text \<open>
  C6 (heartbeat failure). The code at the failing inputs: a pong that does not arrive in
  time, or a ping that raises, ends the heartbeat task by a plain return with the state
  forced to \<open>DISCONNECTED\<close>. The \<^verbatim>\<open>gather\<close> of line 188 then still waits for the
  sender, which never returns, so the failure handler is not reached: the loop is
  blocked with the counter at 0, no backoff sleep and no second connection attempt.
\<close>

theorem heartbeat_failure_no_reconnect:
  "heartbeat CONNECTED [PongTimeout Done]
     = (Returned, DISCONNECTED, [WsPing, StateChange DISCONNECTED, WsClose])
   \<and> heartbeat CONNECTED [PingRaises Exception]
     = (Returned, DISCONNECTED, [WsPing, StateChange DISCONNECTED])
   \<and> clipboard_sync default_config initial_loop
        ((Connected Returned Pending [PongTimeout Done], Done) # rest)
     = (Blocked, \<lparr>current_state = DISCONNECTED, reconnect_count = 0\<rparr>,
        [StateChange CONNECTING, Connect, StateChange CONNECTED, Notify NotifyConnected,
         WsPing, StateChange DISCONNECTED, WsClose])
   \<and> clipboard_sync default_config initial_loop
        ((Connected Pending Pending [PingRaises Exception], Done) # rest)
     = (Blocked, \<lparr>current_state = DISCONNECTED, reconnect_count = 0\<rparr>,
        [StateChange CONNECTING, Connect, StateChange CONNECTED, Notify NotifyConnected,
         WsPing, StateChange DISCONNECTED])"
  by (simp add: sync_iteration_def on_connected_def set_state_def gather_def initial_loop_def)

end
